theory Spec2Isabelle
  imports Complex_Main
begin

section \<open>Product service: the request handlers of service/routes.py\<close>

text \<open>
  The handlers of \<^verbatim>\<open>service/routes.py\<close> are embedded as functions from a request and a
  store to a result and a store. \<^verbatim>\<open>abort(code, ...)\<close> raises; a handler therefore returns
  \<open>error + response\<close>, with \<open>Inl (HTTPException code)\<close> for an abort. Log lines and the
  human-readable description given to \<^verbatim>\<open>abort\<close> are not modelled.

  The persistence model (\<^verbatim>\<open>service/models.py\<close>: \<^verbatim>\<open>Product\<close>, \<^verbatim>\<open>Category\<close>,
  \<^verbatim>\<open>DataValidationError\<close>) and the status constants (\<^verbatim>\<open>service/common/status.py\<close>) are not
  part of the sources at hand. The enumeration \<^verbatim>\<open>Category\<close> is a parameter \<open>cats\<close>, the list
  of its member names; the methods of \<^verbatim>\<open>Product\<close> are modelled from the specification and
  marked so. Python's \<^verbatim>\<open>str.upper\<close>, which follows the Unicode case mapping, is a parameter
  \<open>str_upper\<close> of the handler that calls it. Strings are byte strings.
\<close>

subsection \<open>Values\<close>

type_synonym decimal = rat

datatype json =
    JNull
  | JBool bool
  | JNum decimal
  | JStr string
  | JArr "json list"
  | JObj "(string \<times> json) list"

text \<open>\<^verbatim>\<open>data[key]\<close> on a parsed JSON value; only an object has keys.\<close>

fun json_get :: "json \<Rightarrow> string \<Rightarrow> json option" where
  "json_get (JObj kv) k = map_of kv k"
| "json_get _ k = None"

datatype error =
    DataValidationError
  | KeyError
  | HTTPException nat

text \<open>A member of \<^verbatim>\<open>Category\<close> is identified by its name.\<close>

type_synonym Category = string

record Product =
  id_field :: "int option"
  name :: string
  description :: string
  price :: decimal
  available :: bool
  category :: Category

text \<open>The table of products and the next identifier the storage hands out.\<close>

record Store =
  rows :: "Product list"
  next_id :: int

text \<open>\<^verbatim>\<open>url_for(endpoint, product_id=..., _external=True)\<close>, kept symbolic.\<close>

datatype url = url_for string "int option"

record request =
  headers :: "string \<rightharpoonup> string"
  args :: "string \<rightharpoonup> string"
  get_json :: "error + json"

record response =
  body :: json
  status :: nat
  resp_headers :: "(string \<times> url) list"

subsection \<open>Status codes\<close>

text \<open>Modelled from the spec: the constants of \<^verbatim>\<open>service.common.status\<close>, which is not among
  the sources; the specification and the constants' names give the numbers.\<close>

abbreviation HTTP_200_OK :: nat where "HTTP_200_OK \<equiv> 200"
abbreviation HTTP_201_CREATED :: nat where "HTTP_201_CREATED \<equiv> 201"
abbreviation HTTP_204_NO_CONTENT :: nat where "HTTP_204_NO_CONTENT \<equiv> 204"
abbreviation HTTP_400_BAD_REQUEST :: nat where "HTTP_400_BAD_REQUEST \<equiv> 400"
abbreviation HTTP_404_NOT_FOUND :: nat where "HTTP_404_NOT_FOUND \<equiv> 404"
abbreviation HTTP_415_UNSUPPORTED_MEDIA_TYPE :: nat where "HTTP_415_UNSUPPORTED_MEDIA_TYPE \<equiv> 415"
abbreviation HTTP_500_INTERNAL_SERVER_ERROR :: nat where "HTTP_500_INTERNAL_SERVER_ERROR \<equiv> 500"

subsection \<open>Python and Flask primitives\<close>

text \<open>\<^verbatim>\<open>abort(code, description)\<close> raises the HTTP exception of that code.\<close>

definition abort :: "nat \<Rightarrow> error" where
  "abort code = HTTPException code"

text \<open>The status of the response Flask sends: that of the returned response, the code of an
  HTTP exception, and 500 for any other exception that escapes a handler.\<close>

fun status_code :: "error + response \<Rightarrow> nat" where
  "status_code (Inr r) = status r"
| "status_code (Inl (HTTPException code)) = code"
| "status_code (Inl _) = HTTP_500_INTERNAL_SERVER_ERROR"

text \<open>Truthiness of the result of \<^verbatim>\<open>request.args.get(key)\<close>: \<^verbatim>\<open>None\<close> and the empty string
  are false. The value is kept when it is true.\<close>

fun truthy :: "string option \<Rightarrow> string option" where
  "truthy None = None"
| "truthy (Some v) = (if v = [] then None else Some v)"

text \<open>\<^verbatim>\<open>str.lower\<close>, as far as \<^verbatim>\<open>list_products\<close> needs it: the result is only
  compared with \<^verbatim>\<open>"true"\<close>, \<^verbatim>\<open>"1"\<close> and \<^verbatim>\<open>"t"\<close>. The letters A to Z are mapped, every other
  byte is left alone; no character outside ASCII lower-cases into one of the characters of
  these three words, so the comparison comes out as it does in Python for every string.\<close>

definition lower_char :: "char \<Rightarrow> char" where
  "lower_char c =
     (case map_of (zip ''ABCDEFGHIJKLMNOPQRSTUVWXYZ'' ''abcdefghijklmnopqrstuvwxyz'') c of
        None \<Rightarrow> c | Some l \<Rightarrow> l)"

definition lower :: "string \<Rightarrow> string" where
  "lower v = map lower_char v"

text \<open>\<^verbatim>\<open>Category[key]\<close>: the member of that exact name, or \<^verbatim>\<open>KeyError\<close>.\<close>

definition Category_getitem :: "string list \<Rightarrow> string \<Rightarrow> error + Category" where
  "Category_getitem cats key = (if key \<in> set cats then Inr key else Inl KeyError)"

subsection \<open>The persistence model\<close>

text \<open>Modelled from the spec: \<^verbatim>\<open>Product()\<close> of \<^verbatim>\<open>service/models.py\<close>, a product that has no
  id yet. The other fields are blank; \<open>Product_deserialize\<close> sets all of them or raises.\<close>

definition Product_new :: Product where
  "Product_new =
     \<lparr>id_field = None, name = [], description = [], price = 0, available = False,
      category = []\<rparr>"

text \<open>Modelled from the spec: \<^verbatim>\<open>Product.serialize\<close>; the JSON shape mirrors the entity's
  fields, the category given by its name.\<close>

definition Product_serialize :: "Product \<Rightarrow> json" where
  "Product_serialize p =
     JObj [(''id'', case id_field p of None \<Rightarrow> JNull | Some i \<Rightarrow> JNum (of_int i)),
           (''name'', JStr (name p)),
           (''description'', JStr (description p)),
           (''price'', JNum (price p)),
           (''available'', JBool (available p)),
           (''category'', JStr (category p))]"

text \<open>Modelled from the spec: \<^verbatim>\<open>Product.deserialize\<close> validates the body against the required
  fields and their types (name and description strings, price a decimal, available a boolean,
  category the name of a member of the enumeration) and sets these five fields; the id is
  not taken from the body. Any failure is a \<^verbatim>\<open>DataValidationError\<close>.\<close>

definition Product_deserialize :: "string list \<Rightarrow> Product \<Rightarrow> json \<Rightarrow> error + Product" where
  "Product_deserialize cats p data =
     (case json_get data ''name'' of
        Some (JStr n) \<Rightarrow>
          (case json_get data ''description'' of
             Some (JStr d) \<Rightarrow>
               (case json_get data ''price'' of
                  Some (JNum pr) \<Rightarrow>
                    (case json_get data ''available'' of
                       Some (JBool a) \<Rightarrow>
                         (case json_get data ''category'' of
                            Some (JStr c) \<Rightarrow>
                              (if c \<in> set cats
                               then Inr (p\<lparr>name := n, description := d, price := pr,
                                          available := a, category := c\<rparr>)
                               else Inl DataValidationError)
                          | _ \<Rightarrow> Inl DataValidationError)
                     | _ \<Rightarrow> Inl DataValidationError)
                | _ \<Rightarrow> Inl DataValidationError)
           | _ \<Rightarrow> Inl DataValidationError)
      | _ \<Rightarrow> Inl DataValidationError)"

text \<open>Modelled from the spec: \<^verbatim>\<open>Product.find\<close>, the stored product of that id, if any.\<close>

definition Product_find :: "int \<Rightarrow> Store \<Rightarrow> Product option" where
  "Product_find product_id s = List.find (\<lambda>p. id_field p = Some product_id) (rows s)"

text \<open>Modelled from the spec: \<^verbatim>\<open>Product.all\<close>, every stored product.\<close>

definition Product_all :: "Store \<Rightarrow> Product list" where
  "Product_all s = rows s"

text \<open>Modelled from the spec: \<^verbatim>\<open>Product.find_by_name\<close>, exact match on the name.\<close>

definition Product_find_by_name :: "string \<Rightarrow> Store \<Rightarrow> Product list" where
  "Product_find_by_name n s = filter (\<lambda>p. name p = n) (rows s)"

text \<open>Modelled from the spec: \<^verbatim>\<open>Product.find_by_category\<close>, match on the category.\<close>

definition Product_find_by_category :: "Category \<Rightarrow> Store \<Rightarrow> Product list" where
  "Product_find_by_category c s = filter (\<lambda>p. category p = c) (rows s)"

text \<open>Modelled from the spec: \<^verbatim>\<open>Product.find_by_availability\<close>, match on the flag.\<close>

definition Product_find_by_availability :: "bool \<Rightarrow> Store \<Rightarrow> Product list" where
  "Product_find_by_availability a s = filter (\<lambda>p. available p = a) (rows s)"

text \<open>Modelled from the spec: \<^verbatim>\<open>Product.create\<close>; the storage assigns a new id and adds the
  row. The product with its id is returned along with the store.\<close>

definition Product_create :: "Product \<Rightarrow> Store \<Rightarrow> Product \<times> Store" where
  "Product_create p s =
     (let p' = p\<lparr>id_field := Some (next_id s)\<rparr>
      in (p', s\<lparr>rows := rows s @ [p'], next_id := next_id s + 1\<rparr>))"

text \<open>Modelled from the spec: \<^verbatim>\<open>Product.update\<close>; the row of the product's id takes the
  product's fields.\<close>

definition Product_update :: "Product \<Rightarrow> Store \<Rightarrow> Store" where
  "Product_update p s =
     s\<lparr>rows := map (\<lambda>q. if id_field q = id_field p then p else q) (rows s)\<rparr>"

text \<open>Modelled from the spec: \<^verbatim>\<open>Product.delete\<close>; the row of the product's id is removed.\<close>

definition Product_delete :: "Product \<Rightarrow> Store \<Rightarrow> Store" where
  "Product_delete p s = s\<lparr>rows := filter (\<lambda>q. id_field q \<noteq> id_field p) (rows s)\<rparr>"

text \<open>Modelled from the spec: the invariant of the storage, which assigns the ids. Every
  row has an id, below the next one to be handed out, and no two rows share an id.\<close>

definition store_ok :: "Store \<Rightarrow> bool" where
  "store_ok s \<longleftrightarrow>
     list_all (\<lambda>p. case id_field p of None \<Rightarrow> False | Some i \<Rightarrow> i < next_id s) (rows s)
     \<and> distinct (map id_field (rows s))"

text \<open>A product of that id is stored.\<close>

definition product_exists :: "int \<Rightarrow> Store \<Rightarrow> bool" where
  "product_exists product_id s = list_ex (\<lambda>p. id_field p = Some product_id) (rows s)"

definition empty_store :: Store where
  "empty_store = \<lparr>rows = [], next_id = 1\<rparr>"

subsection \<open>The handlers\<close>

text \<open>\<^verbatim>\<open>check_content_type\<close>: aborts with 415 when the header is missing or differs.\<close>

definition check_content_type :: "string \<Rightarrow> request \<Rightarrow> error + unit" where
  "check_content_type content_type req =
     (case headers req ''Content-Type'' of
        None \<Rightarrow> Inl (abort HTTP_415_UNSUPPORTED_MEDIA_TYPE)
      | Some v \<Rightarrow>
          if v = content_type then Inr ()
          else Inl (abort HTTP_415_UNSUPPORTED_MEDIA_TYPE))"

text \<open>The two \<^verbatim>\<open>except\<close> clauses of \<^verbatim>\<open>create_products\<close> and \<^verbatim>\<open>update_products\<close>:
  a \<^verbatim>\<open>DataValidationError\<close> aborts with 400, any other exception with 500.\<close>

fun on_exception :: "error \<Rightarrow> error" where
  "on_exception DataValidationError = abort HTTP_400_BAD_REQUEST"
| "on_exception _ = abort HTTP_500_INTERNAL_SERVER_ERROR"

definition create_products :: "string list \<Rightarrow> request \<Rightarrow> Store \<Rightarrow> (error + response) \<times> Store" where
  "create_products cats req s =
     (case check_content_type ''application/json'' req of
        Inl e \<Rightarrow> (Inl e, s)
      | Inr _ \<Rightarrow>
          (case get_json req of
             Inl e \<Rightarrow> (Inl (on_exception e), s)
           | Inr data \<Rightarrow>
               (case Product_deserialize cats Product_new data of
                  Inl e \<Rightarrow> (Inl (on_exception e), s)
                | Inr product \<Rightarrow>
                    (case Product_create product s of
                       (product', s') \<Rightarrow>
                         (Inr \<lparr>body = Product_serialize product',
                               status = HTTP_201_CREATED,
                               resp_headers =
                                 [(''Location'', url_for ''get_products'' (id_field product'))]\<rparr>,
                          s')))))"

definition list_products ::
    "(string \<Rightarrow> string) \<Rightarrow> string list \<Rightarrow> request \<Rightarrow> Store \<Rightarrow> (error + response) \<times> Store" where
  "list_products str_upper cats req s =
     (let results = (\<lambda>products.
            (Inr \<lparr>body = JArr (map Product_serialize products), status = HTTP_200_OK,
                  resp_headers = []\<rparr>, s))
      in case truthy (args req ''name'') of
           Some name' \<Rightarrow> results (Product_find_by_name name' s)
         | None \<Rightarrow>
             (case truthy (args req ''category'') of
                Some category' \<Rightarrow>
                  (case Category_getitem cats (str_upper category') of
                     Inr category_value \<Rightarrow> results (Product_find_by_category category_value s)
                   | Inl KeyError \<Rightarrow> (Inl (abort HTTP_400_BAD_REQUEST), s)
                   | Inl e \<Rightarrow> (Inl e, s))
              | None \<Rightarrow>
                  (case truthy (args req ''available'') of
                     Some available' \<Rightarrow>
                       (let is_available = (lower available' \<in> set [''true'', ''1'', ''t''])
                        in results (Product_find_by_availability is_available s))
                   | None \<Rightarrow> results (Product_all s))))"

definition get_products :: "int \<Rightarrow> Store \<Rightarrow> (error + response) \<times> Store" where
  "get_products product_id s =
     (case Product_find product_id s of
        None \<Rightarrow> (Inl (abort HTTP_404_NOT_FOUND), s)
      | Some product \<Rightarrow>
          (Inr \<lparr>body = Product_serialize product, status = HTTP_200_OK, resp_headers = []\<rparr>, s))"

definition update_products ::
    "string list \<Rightarrow> int \<Rightarrow> request \<Rightarrow> Store \<Rightarrow> (error + response) \<times> Store" where
  "update_products cats product_id req s =
     (case check_content_type ''application/json'' req of
        Inl e \<Rightarrow> (Inl e, s)
      | Inr _ \<Rightarrow>
          (case Product_find product_id s of
             None \<Rightarrow> (Inl (abort HTTP_404_NOT_FOUND), s)
           | Some product \<Rightarrow>
               (case get_json req of
                  Inl e \<Rightarrow> (Inl (on_exception e), s)
                | Inr data \<Rightarrow>
                    (case Product_deserialize cats product data of
                       Inl e \<Rightarrow> (Inl (on_exception e), s)
                     | Inr product1 \<Rightarrow>
                         (let product2 = product1\<lparr>id_field := Some product_id\<rparr>
                          in (Inr \<lparr>body = Product_serialize product2, status = HTTP_200_OK,
                                    resp_headers = []\<rparr>,
                              Product_update product2 s))))))"

definition delete_products :: "int \<Rightarrow> Store \<Rightarrow> (error + response) \<times> Store" where
  "delete_products product_id s =
     (let s' = (case Product_find product_id s of
                  Some product \<Rightarrow> Product_delete product s
                | None \<Rightarrow> s)
      in (Inr \<lparr>body = JStr [], status = HTTP_204_NO_CONTENT, resp_headers = []\<rparr>, s'))"

subsection \<open>Example data\<close>

definition tools_hammer :: Product where
  "tools_hammer =
     \<lparr>id_field = Some 1, name = ''hammer'', description = ''claw hammer'', price = 25 / 2,
      available = True, category = ''TOOLS''\<rparr>"

definition food_apple :: Product where
  "food_apple =
     \<lparr>id_field = Some 2, name = ''apple'', description = ''red apple'', price = 1,
      available = False, category = ''FOOD''\<rparr>"

definition two_products :: Store where
  "two_products = \<lparr>rows = [tools_hammer, food_apple], next_id = 3\<rparr>"

text \<open>What \<^verbatim>\<open>str.upper\<close> does to a string of ASCII characters: the letters a to z are
  mapped. It stands for \<open>str_upper\<close> in the examples, all of which are ASCII.\<close>

definition ascii_upper_char :: "char \<Rightarrow> char" where
  "ascii_upper_char c =
     (case map_of (zip ''abcdefghijklmnopqrstuvwxyz'' ''ABCDEFGHIJKLMNOPQRSTUVWXYZ'') c of
        None \<Rightarrow> c | Some u \<Rightarrow> u)"

definition ascii_upper :: "string \<Rightarrow> string" where
  "ascii_upper v = map ascii_upper_char v"

definition some_categories :: "string list" where
  "some_categories = [''UNKNOWN'', ''FOOD'', ''TOOLS'']"

definition json_request :: "json \<Rightarrow> request" where
  "json_request data =
     \<lparr>headers = [''Content-Type'' \<mapsto> ''application/json''], args = Map.empty,
      get_json = Inr data\<rparr>"

definition plain_request :: "json \<Rightarrow> request" where
  "plain_request data =
     \<lparr>headers = [''Content-Type'' \<mapsto> ''text/plain''], args = Map.empty,
      get_json = Inr data\<rparr>"

definition bare_request :: "json \<Rightarrow> request" where
  "bare_request data = \<lparr>headers = Map.empty, args = Map.empty, get_json = Inr data\<rparr>"

text \<open>A request that declares JSON and whose body is not JSON: \<^verbatim>\<open>request.get_json()\<close>
  raises \<^verbatim>\<open>BadRequest\<close>, the HTTP exception of code 400.\<close>

definition unparsable_request :: request where
  "unparsable_request =
     \<lparr>headers = [''Content-Type'' \<mapsto> ''application/json''], args = Map.empty,
      get_json = Inl (HTTPException 400)\<rparr>"

definition query :: "(string \<times> string) list \<Rightarrow> request" where
  "query kvs = \<lparr>headers = Map.empty, args = map_of kvs, get_json = Inr JNull\<rparr>"

definition mallet_body :: json where
  "mallet_body =
     JObj [(''id'', JNum 99), (''name'', JStr ''mallet''),
           (''description'', JStr ''rubber mallet''), (''price'', JNum (15 / 2)),
           (''available'', JBool True), (''category'', JStr ''TOOLS'')]"

definition unpriced_body :: json where
  "unpriced_body =
     JObj [(''name'', JStr ''mallet''), (''description'', JStr ''rubber mallet''),
           (''available'', JBool True), (''category'', JStr ''TOOLS'')]"

section \<open>Properties\<close>

subsection \<open>Looking up a product\<close>

lemma Product_find_None_iff: "Product_find i s = None \<longleftrightarrow> \<not> product_exists i s"
  by (auto simp: Product_find_def product_exists_def find_None_iff list_ex_iff)

lemma Product_find_SomeD:
  "Product_find i s = Some p \<Longrightarrow> id_field p = Some i \<and> p \<in> set (rows s)"
  by (auto simp: Product_find_def find_Some_iff)

subsection \<open>Deleting\<close>

lemma product_exists_delete:
  "id_field p = Some i \<Longrightarrow> \<not> product_exists i (Product_delete p s)"
  by (simp add: product_exists_def Product_delete_def list_ex_iff)

lemma delete_products_absent: "\<not> product_exists i (snd (delete_products i s))"
proof (cases "Product_find i s")
  case None
  then have "\<not> product_exists i s" by (simp add: Product_find_None_iff)
  with None show ?thesis
    by (simp add: delete_products_def)
next
  case (Some p)
  then have "id_field p = Some i" by (simp add: Product_find_SomeD)
  with Some show ?thesis
    by (simp add: delete_products_def product_exists_delete)
qed

lemma delete_products_status: "status_code (fst (delete_products i s)) = 204"
  by (simp add: delete_products_def Let_def)

lemma delete_products_when_absent:
  "\<not> product_exists i s \<Longrightarrow>
   delete_products i s = (Inr \<lparr>body = JStr [], status = 204, resp_headers = []\<rparr>, s)"
  by (simp add: delete_products_def Product_find_None_iff [symmetric])

text \<open>
  C3: DELETE /products/{id} answers 204 for every id and every store, whether or not a
  product of that id is stored; afterwards no product of that id is stored; a second DELETE
  of the same id answers 204 again and leaves the store as the first one left it.
\<close>

theorem delete_products_idempotent:
  "status_code (fst (delete_products product_id s)) = 204
   \<and> \<not> product_exists product_id (snd (delete_products product_id s))
   \<and> status_code (fst (delete_products product_id (snd (delete_products product_id s)))) = 204
   \<and> snd (delete_products product_id (snd (delete_products product_id s)))
       = snd (delete_products product_id s)"
  using delete_products_absent [of product_id s]
  by (simp add: delete_products_status delete_products_when_absent)

theorem delete_products_idempotent_witness:
  "product_exists 1 two_products
   \<and> status_code (fst (delete_products 1 two_products)) = 204
   \<and> snd (delete_products 1 two_products) = \<lparr>rows = [food_apple], next_id = 3\<rparr>
   \<and> \<not> product_exists 1 (snd (delete_products 1 two_products))
   \<and> status_code (fst (delete_products 1 (snd (delete_products 1 two_products)))) = 204
   \<and> snd (delete_products 1 (snd (delete_products 1 two_products)))
       = snd (delete_products 1 two_products)"
  using delete_products_idempotent [of 1 two_products]
  by (simp add: product_exists_def delete_products_def Product_find_def Product_delete_def
      two_products_def tools_hammer_def food_apple_def)

subsection \<open>The content type\<close>

lemma check_content_type_ok:
  "headers req ''Content-Type'' = Some ''application/json'' \<Longrightarrow>
   check_content_type ''application/json'' req = Inr ()"
  by (simp add: check_content_type_def)

lemma check_content_type_bad:
  "headers req ''Content-Type'' \<noteq> Some ''application/json'' \<Longrightarrow>
   check_content_type ''application/json'' req = Inl (HTTPException 415)"
  by (cases "headers req ''Content-Type''") (simp_all add: check_content_type_def abort_def)

lemma on_exception_status: "status_code (Inl (on_exception e)) \<in> {400, 500}"
  by (cases e) (simp_all add: abort_def)

lemma create_products_json_status:
  assumes "headers req ''Content-Type'' = Some ''application/json''"
  shows "status_code (fst (create_products cats req s)) \<in> {201, 400, 500}"
proof -
  have ct: "check_content_type ''application/json'' req = Inr ()"
    using assms by (rule check_content_type_ok)
  show ?thesis
  proof (cases "get_json req")
    case (Inl e)
    with ct show ?thesis
      using on_exception_status [of e] by (auto simp: create_products_def)
  next
    case (Inr data)
    show ?thesis
    proof (cases "Product_deserialize cats Product_new data")
      case (Inl e)
      with ct Inr show ?thesis
        using on_exception_status [of e] by (auto simp: create_products_def)
    next
      case (Inr product)
      with ct \<open>get_json req = Inr data\<close> show ?thesis
        by (simp add: create_products_def Product_create_def Let_def)
    qed
  qed
qed

lemma update_products_absent:
  assumes "headers req ''Content-Type'' = Some ''application/json''"
    and "\<not> product_exists i s"
  shows "update_products cats i req s = (Inl (HTTPException 404), s)"
  using assms
  by (simp add: update_products_def check_content_type_ok Product_find_None_iff [symmetric]
      abort_def)

lemma update_products_found_status:
  assumes "headers req ''Content-Type'' = Some ''application/json''"
    and "product_exists i s"
  shows "status_code (fst (update_products cats i req s)) \<in> {200, 400, 500}"
proof -
  have ct: "check_content_type ''application/json'' req = Inr ()"
    using assms(1) by (rule check_content_type_ok)
  from assms(2) obtain product where found: "Product_find i s = Some product"
    using Product_find_None_iff [of i s] by (cases "Product_find i s") auto
  show ?thesis
  proof (cases "get_json req")
    case (Inl e)
    with ct found show ?thesis
      using on_exception_status [of e] by (auto simp: update_products_def)
  next
    case (Inr data)
    show ?thesis
    proof (cases "Product_deserialize cats product data")
      case (Inl e)
      with ct found Inr show ?thesis
        using on_exception_status [of e] by (auto simp: update_products_def)
    next
      case (Inr product1)
      with ct found \<open>get_json req = Inr data\<close> show ?thesis
        by (simp add: update_products_def Let_def)
    qed
  qed
qed

text \<open>
  C8: a POST /products or PUT /products/{id} request whose Content-Type header is missing
  or is not exactly application/json is answered 415 and leaves the store as it was; a
  request whose Content-Type is exactly application/json is never answered 415.
\<close>

theorem content_type_415:
  "(headers req ''Content-Type'' \<noteq> Some ''application/json'' \<longrightarrow>
      status_code (fst (create_products cats req s)) = 415
      \<and> snd (create_products cats req s) = s
      \<and> status_code (fst (update_products cats product_id req s)) = 415
      \<and> snd (update_products cats product_id req s) = s)
   \<and> (headers req ''Content-Type'' = Some ''application/json'' \<longrightarrow>
      status_code (fst (create_products cats req s)) \<noteq> 415
      \<and> status_code (fst (update_products cats product_id req s)) \<noteq> 415)"
proof (intro conjI impI)
  assume bad: "headers req ''Content-Type'' \<noteq> Some ''application/json''"
  show "status_code (fst (create_products cats req s)) = 415"
    by (simp add: create_products_def check_content_type_bad [OF bad])
  show "snd (create_products cats req s) = s"
    by (simp add: create_products_def check_content_type_bad [OF bad])
  show "status_code (fst (update_products cats product_id req s)) = 415"
    by (simp add: update_products_def check_content_type_bad [OF bad])
  show "snd (update_products cats product_id req s) = s"
    by (simp add: update_products_def check_content_type_bad [OF bad])
next
  assume ok: "headers req ''Content-Type'' = Some ''application/json''"
  show "status_code (fst (create_products cats req s)) \<noteq> 415"
    using create_products_json_status [OF ok, of cats s] by auto
  show "status_code (fst (update_products cats product_id req s)) \<noteq> 415"
  proof (cases "product_exists product_id s")
    case True
    then show ?thesis
      using update_products_found_status [OF ok, of product_id s cats] by auto
  next
    case False
    then show ?thesis
      by (simp add: update_products_absent [OF ok])
  qed
qed

theorem content_type_415_witness:
  "headers (plain_request mallet_body) ''Content-Type'' \<noteq> Some ''application/json''
   \<and> status_code (fst (create_products some_categories (plain_request mallet_body) two_products)) = 415
   \<and> snd (create_products some_categories (plain_request mallet_body) two_products) = two_products
   \<and> headers (bare_request mallet_body) ''Content-Type'' \<noteq> Some ''application/json''
   \<and> status_code (fst (update_products some_categories 1 (bare_request mallet_body) two_products)) = 415
   \<and> snd (update_products some_categories 1 (bare_request mallet_body) two_products) = two_products
   \<and> headers (json_request mallet_body) ''Content-Type'' = Some ''application/json''
   \<and> status_code (fst (create_products some_categories (json_request mallet_body) two_products)) = 201
   \<and> status_code (fst (update_products some_categories 1 (json_request mallet_body) two_products)) = 200"
proof -
  have plain: "headers (plain_request mallet_body) ''Content-Type'' \<noteq> Some ''application/json''"
    by (simp add: plain_request_def)
  have bare: "headers (bare_request mallet_body) ''Content-Type'' \<noteq> Some ''application/json''"
    by (simp add: bare_request_def)
  have js: "headers (json_request mallet_body) ''Content-Type'' = Some ''application/json''"
    by (simp add: json_request_def)
  have created: "status_code (fst (create_products some_categories (json_request mallet_body) two_products)) = 201"
    by (simp add: create_products_def check_content_type_def json_request_def mallet_body_def
        Product_deserialize_def Product_new_def Product_create_def some_categories_def Let_def)
  have updated: "status_code (fst (update_products some_categories 1 (json_request mallet_body) two_products)) = 200"
    by (simp add: update_products_def check_content_type_def json_request_def mallet_body_def
        Product_deserialize_def Product_find_def two_products_def tools_hammer_def
        some_categories_def Let_def)
  show ?thesis
    using plain bare js created updated
      content_type_415 [of "plain_request mallet_body" some_categories two_products 1]
      content_type_415 [of "bare_request mallet_body" some_categories two_products 1]
      content_type_415 [of "json_request mallet_body" some_categories two_products 1]
    by simp
qed

subsection \<open>Not found\<close>

lemma get_products_absent:
  "\<not> product_exists i s \<Longrightarrow> get_products i s = (Inl (HTTPException 404), s)"
  by (simp add: get_products_def Product_find_None_iff [symmetric] abort_def)

lemma get_products_found:
  "Product_find i s = Some p \<Longrightarrow>
   get_products i s =
     (Inr \<lparr>body = Product_serialize p, status = 200, resp_headers = []\<rparr>, s)"
  by (simp add: get_products_def)

lemma get_products_store: "snd (get_products i s) = s"
  by (cases "Product_find i s") (simp_all add: get_products_def)

text \<open>
  C5: for every id, GET /products/{id} is answered 404 if and only if no product of that
  id is stored, and PUT /products/{id} with Content-Type application/json is answered 404 if
  and only if no product of that id is stored; a request answered 404 leaves the store as it
  was.
\<close>

theorem not_found_iff_absent:
  "(status_code (fst (get_products product_id s)) = 404 \<longleftrightarrow> \<not> product_exists product_id s)
   \<and> snd (get_products product_id s) = s
   \<and> (headers req ''Content-Type'' = Some ''application/json'' \<longrightarrow>
        (status_code (fst (update_products cats product_id req s)) = 404
           \<longleftrightarrow> \<not> product_exists product_id s)
        \<and> (\<not> product_exists product_id s \<longrightarrow>
             snd (update_products cats product_id req s) = s))"
proof (intro conjI impI)
  show "status_code (fst (get_products product_id s)) = 404 \<longleftrightarrow> \<not> product_exists product_id s"
  proof (cases "Product_find product_id s")
    case None
    then have "\<not> product_exists product_id s" by (simp add: Product_find_None_iff)
    then show ?thesis by (simp add: get_products_absent)
  next
    case (Some p)
    then have "product_exists product_id s"
      using Product_find_None_iff [of product_id s] by simp
    with Some show ?thesis by (simp add: get_products_found)
  qed
  show "snd (get_products product_id s) = s" by (rule get_products_store)
next
  assume ok: "headers req ''Content-Type'' = Some ''application/json''"
  show "status_code (fst (update_products cats product_id req s)) = 404
          \<longleftrightarrow> \<not> product_exists product_id s"
  proof (cases "product_exists product_id s")
    case True
    then show ?thesis
      using update_products_found_status [OF ok, of product_id s cats] by auto
  next
    case False
    then show ?thesis by (simp add: update_products_absent [OF ok])
  qed
next
  assume "headers req ''Content-Type'' = Some ''application/json''"
    and "\<not> product_exists product_id s"
  then show "snd (update_products cats product_id req s) = s"
    by (simp add: update_products_absent)
qed

theorem not_found_iff_absent_witness:
  "\<not> product_exists 7 two_products
   \<and> status_code (fst (get_products 7 two_products)) = 404
   \<and> headers (json_request mallet_body) ''Content-Type'' = Some ''application/json''
   \<and> status_code (fst (update_products some_categories 7 (json_request mallet_body) two_products)) = 404
   \<and> snd (update_products some_categories 7 (json_request mallet_body) two_products) = two_products
   \<and> product_exists 2 two_products
   \<and> status_code (fst (get_products 2 two_products)) = 200
   \<and> status_code (fst (update_products some_categories 2 (json_request mallet_body) two_products)) = 200"
proof -
  have absent: "\<not> product_exists 7 two_products"
    by (simp add: product_exists_def two_products_def tools_hammer_def food_apple_def)
  have present: "product_exists 2 two_products"
    by (simp add: product_exists_def two_products_def tools_hammer_def food_apple_def)
  have js: "headers (json_request mallet_body) ''Content-Type'' = Some ''application/json''"
    by (simp add: json_request_def)
  have got: "status_code (fst (get_products 2 two_products)) = 200"
    by (simp add: get_products_def Product_find_def two_products_def tools_hammer_def
        food_apple_def)
  have updated: "status_code (fst (update_products some_categories 2 (json_request mallet_body) two_products)) = 200"
    by (simp add: update_products_def check_content_type_def json_request_def mallet_body_def
        Product_deserialize_def Product_find_def two_products_def tools_hammer_def
        food_apple_def some_categories_def Let_def)
  show ?thesis
    using absent present js got updated
      not_found_iff_absent [of 7 two_products "json_request mallet_body" some_categories]
      not_found_iff_absent [of 2 two_products "json_request mallet_body" some_categories]
    by simp
qed

subsection \<open>Listing and searching\<close>

lemma list_products_name:
  "truthy (args req ''name'') = Some n \<Longrightarrow>
   list_products str_upper cats req s =
     (Inr \<lparr>body = JArr (map Product_serialize (Product_find_by_name n s)), status = 200,
           resp_headers = []\<rparr>, s)"
  by (simp add: list_products_def)

lemma list_products_category:
  "truthy (args req ''name'') = None \<Longrightarrow> truthy (args req ''category'') = Some c \<Longrightarrow>
   list_products str_upper cats req s =
     (if str_upper c \<in> set cats
      then (Inr \<lparr>body = JArr (map Product_serialize (Product_find_by_category (str_upper c) s)),
                  status = 200, resp_headers = []\<rparr>, s)
      else (Inl (HTTPException 400), s))"
  by (simp add: list_products_def Category_getitem_def abort_def)

lemma list_products_available:
  "truthy (args req ''name'') = None \<Longrightarrow> truthy (args req ''category'') = None \<Longrightarrow>
   truthy (args req ''available'') = Some a \<Longrightarrow>
   list_products str_upper cats req s =
     (Inr \<lparr>body = JArr (map Product_serialize
              (Product_find_by_availability
                 (lower a = ''true'' \<or> lower a = ''1'' \<or> lower a = ''t'') s)),
           status = 200, resp_headers = []\<rparr>, s)"
  by (simp add: list_products_def)

lemma list_products_all:
  "truthy (args req ''name'') = None \<Longrightarrow> truthy (args req ''category'') = None \<Longrightarrow>
   truthy (args req ''available'') = None \<Longrightarrow>
   list_products str_upper cats req s =
     (Inr \<lparr>body = JArr (map Product_serialize (Product_all s)), status = 200,
           resp_headers = []\<rparr>, s)"
  by (simp add: list_products_def)

lemma list_products_args:
  "truthy (args r1 ''name'') = truthy (args r2 ''name'') \<Longrightarrow>
   truthy (args r1 ''category'') = truthy (args r2 ''category'') \<Longrightarrow>
   truthy (args r1 ''available'') = truthy (args r2 ''available'') \<Longrightarrow>
   list_products str_upper cats r1 s = list_products str_upper cats r2 s"
  by (simp add: list_products_def cong del: option.case_cong_weak)

lemma truthy_Some_iff: "truthy a = Some v \<longleftrightarrow> a = Some v \<and> v \<noteq> []"
  by (cases a) auto

lemma truthy_None_iff: "truthy a = None \<longleftrightarrow> a = None \<or> a = Some []"
  by (cases a) auto

text \<open>
  C7: for every non-empty name value, GET /products?name=<value> is answered 200 with the
  list of the serialized stored products whose name is exactly <value>, and no others,
  whatever the other query parameters are.
\<close>

theorem list_products_by_name:
  assumes "args req ''name'' = Some v" and "v \<noteq> []"
  shows "list_products str_upper cats req s =
     (Inr \<lparr>body = JArr (map Product_serialize (filter (\<lambda>p. name p = v) (rows s))),
           status = 200, resp_headers = []\<rparr>, s)"
proof -
  from assms have "truthy (args req ''name'') = Some v"
    by (simp add: truthy_Some_iff)
  then show ?thesis
    by (simp add: list_products_name Product_find_by_name_def)
qed

theorem list_products_by_name_witness:
  "args (query [(''name'', ''apple'')]) ''name'' = Some ''apple'' \<and> ''apple'' \<noteq> []
   \<and> list_products ascii_upper some_categories (query [(''name'', ''apple'')]) two_products =
       (Inr \<lparr>body = JArr [Product_serialize food_apple], status = 200, resp_headers = []\<rparr>,
        two_products)"
proof -
  have a: "args (query [(''name'', ''apple'')]) ''name'' = Some ''apple''"
    by (simp add: query_def)
  have b: "''apple'' \<noteq> []" by simp
  show ?thesis
    using a list_products_by_name [OF a b, of ascii_upper some_categories two_products]
    by (simp add: two_products_def tools_hammer_def food_apple_def)
qed

text \<open>
  C9: for every non-empty string v, with no name and no category filter in effect,
  GET /products?available=<v> is answered 200, never an error: v counts as true exactly
  when its lower-case form is "true", "1" or "t" and as false otherwise, and the answer
  lists the stored products of that availability.
\<close>

theorem list_products_by_availability:
  assumes "truthy (args req ''name'') = None" and "truthy (args req ''category'') = None"
    and "args req ''available'' = Some v" and "v \<noteq> []"
  shows "list_products str_upper cats req s =
     (Inr \<lparr>body = JArr (map Product_serialize
              (filter (\<lambda>p. available p = (lower v = ''true'' \<or> lower v = ''1'' \<or> lower v = ''t''))
                 (rows s))),
           status = 200, resp_headers = []\<rparr>, s)"
proof -
  from assms(3,4) have "truthy (args req ''available'') = Some v"
    by (simp add: truthy_Some_iff)
  with assms(1,2) show ?thesis
    by (simp add: list_products_available Product_find_by_availability_def)
qed

theorem list_products_by_availability_witness:
  "list_products ascii_upper some_categories (query [(''available'', ''TRUE'')]) two_products =
     (Inr \<lparr>body = JArr [Product_serialize tools_hammer], status = 200, resp_headers = []\<rparr>,
      two_products)
   \<and> list_products ascii_upper some_categories (query [(''available'', ''yes'')]) two_products =
     (Inr \<lparr>body = JArr [Product_serialize food_apple], status = 200, resp_headers = []\<rparr>,
      two_products)
   \<and> list_products ascii_upper some_categories (query [(''available'', ''garbage'')]) two_products =
     (Inr \<lparr>body = JArr [Product_serialize food_apple], status = 200, resp_headers = []\<rparr>,
      two_products)"
proof -
  have n: "truthy (args (query [(''available'', v)]) ''name'') = None"
    and c: "truthy (args (query [(''available'', v)]) ''category'') = None"
    and a: "args (query [(''available'', v)]) ''available'' = Some v" for v
    by (simp_all add: query_def)
  have l: "lower ''TRUE'' = ''true''" "lower ''yes'' = ''yes''" "lower ''garbage'' = ''garbage''"
    by (simp_all add: lower_def lower_char_def)
  show ?thesis
    using list_products_by_availability [OF n c a, of "''TRUE''" ascii_upper some_categories two_products]
      list_products_by_availability [OF n c a, of "''yes''" ascii_upper some_categories two_products]
      list_products_by_availability [OF n c a, of "''garbage''" ascii_upper some_categories two_products]
    by (simp add: l two_products_def tools_hammer_def food_apple_def)
qed

text \<open>
  C10: of the query parameters of GET /products at most one filter is applied, the name
  before the category before the availability: the answer is the one the first non-empty
  parameter alone would get (so a non-empty name with an invalid category is answered 200);
  a parameter given as the empty string is treated as absent; with no parameter in effect
  all products are returned.
\<close>

theorem list_products_precedence:
  "(truthy (args req ''name'') = Some n \<longrightarrow>
      list_products str_upper cats req s = list_products str_upper cats (req\<lparr>args := [''name'' \<mapsto> n]\<rparr>) s
      \<and> status_code (fst (list_products str_upper cats req s)) = 200)
   \<and> (truthy (args req ''name'') = None \<and> truthy (args req ''category'') = Some c \<longrightarrow>
      list_products str_upper cats req s = list_products str_upper cats (req\<lparr>args := [''category'' \<mapsto> c]\<rparr>) s)
   \<and> (truthy (args req ''name'') = None \<and> truthy (args req ''category'') = None
        \<and> truthy (args req ''available'') = Some a \<longrightarrow>
      list_products str_upper cats req s = list_products str_upper cats (req\<lparr>args := [''available'' \<mapsto> a]\<rparr>) s)
   \<and> (truthy (args req ''name'') = None \<and> truthy (args req ''category'') = None
        \<and> truthy (args req ''available'') = None \<longrightarrow>
      list_products str_upper cats req s =
        (Inr \<lparr>body = JArr (map Product_serialize (rows s)), status = 200,
              resp_headers = []\<rparr>, s))
   \<and> list_products str_upper cats (req\<lparr>args := (args req)(k \<mapsto> [])\<rparr>) s
       = list_products str_upper cats (req\<lparr>args := (args req)(k := None)\<rparr>) s"
proof (intro conjI impI)
  assume "truthy (args req ''name'') = Some n"
  then have n: "args req ''name'' = Some n" "n \<noteq> []"
    by (simp_all add: truthy_Some_iff)
  from n show "list_products str_upper cats req s = list_products str_upper cats (req\<lparr>args := [''name'' \<mapsto> n]\<rparr>) s"
    by (simp add: list_products_def)
  from n show "status_code (fst (list_products str_upper cats req s)) = 200"
    by (simp add: list_products_def)
next
  assume "truthy (args req ''name'') = None \<and> truthy (args req ''category'') = Some c"
  then have "truthy (args req ''name'') = None" "args req ''category'' = Some c" "c \<noteq> []"
    by (simp_all add: truthy_Some_iff)
  then show "list_products str_upper cats req s = list_products str_upper cats (req\<lparr>args := [''category'' \<mapsto> c]\<rparr>) s"
    by (simp add: list_products_def)
next
  assume "truthy (args req ''name'') = None \<and> truthy (args req ''category'') = None
        \<and> truthy (args req ''available'') = Some a"
  then have "truthy (args req ''name'') = None" "truthy (args req ''category'') = None"
    "args req ''available'' = Some a" "a \<noteq> []"
    by (simp_all add: truthy_Some_iff)
  then show "list_products str_upper cats req s = list_products str_upper cats (req\<lparr>args := [''available'' \<mapsto> a]\<rparr>) s"
    by (simp add: list_products_def)
next
  assume "truthy (args req ''name'') = None \<and> truthy (args req ''category'') = None
        \<and> truthy (args req ''available'') = None"
  then show "list_products str_upper cats req s =
        (Inr \<lparr>body = JArr (map Product_serialize (rows s)), status = 200,
              resp_headers = []\<rparr>, s)"
    by (simp add: list_products_all Product_all_def)
next
  have "truthy (args (req\<lparr>args := (args req)(k \<mapsto> [])\<rparr>) k')
      = truthy (args (req\<lparr>args := (args req)(k := None)\<rparr>) k')" for k'
    by simp
  then show "list_products str_upper cats (req\<lparr>args := (args req)(k \<mapsto> [])\<rparr>) s
       = list_products str_upper cats (req\<lparr>args := (args req)(k := None)\<rparr>) s"
    by (intro list_products_args)
qed

theorem list_products_precedence_witness:
  "list_products ascii_upper some_categories
      (query [(''name'', ''apple''), (''category'', ''nonsense''), (''available'', ''true'')])
      two_products
     = (Inr \<lparr>body = JArr [Product_serialize food_apple], status = 200, resp_headers = []\<rparr>,
        two_products)
   \<and> list_products ascii_upper some_categories
      (query [(''name'', ''''), (''category'', ''tools''), (''available'', ''false'')])
      two_products
     = (Inr \<lparr>body = JArr [Product_serialize tools_hammer], status = 200, resp_headers = []\<rparr>,
        two_products)
   \<and> list_products ascii_upper some_categories
      (query [(''name'', ''''), (''category'', ''''), (''available'', ''false'')])
      two_products
     = (Inr \<lparr>body = JArr [Product_serialize food_apple], status = 200, resp_headers = []\<rparr>,
        two_products)
   \<and> list_products ascii_upper some_categories (query [(''name'', ''''), (''category'', '''')]) two_products
     = (Inr \<lparr>body = JArr [Product_serialize tools_hammer, Product_serialize food_apple],
             status = 200, resp_headers = []\<rparr>, two_products)"
proof -
  let ?n = "query [(''name'', ''apple''), (''category'', ''nonsense''), (''available'', ''true'')]"
  let ?c = "query [(''name'', ''''), (''category'', ''tools''), (''available'', ''false'')]"
  let ?a = "query [(''name'', ''''), (''category'', ''''), (''available'', ''false'')]"
  let ?e = "query [(''name'', ''''), (''category'', '''')]"
  have n: "truthy (args ?n ''name'') = Some ''apple''"
    by (simp add: query_def)
  have c: "truthy (args ?c ''name'') = None \<and> truthy (args ?c ''category'') = Some ''tools''"
    by (simp add: query_def)
  have a: "truthy (args ?a ''name'') = None \<and> truthy (args ?a ''category'') = None
        \<and> truthy (args ?a ''available'') = Some ''false''"
    by (simp add: query_def)
  have e: "truthy (args ?e ''name'') = None \<and> truthy (args ?e ''category'') = None
        \<and> truthy (args ?e ''available'') = None"
    by (simp add: query_def)
  have by_name: "list_products ascii_upper some_categories (?n\<lparr>args := [''name'' \<mapsto> ''apple'']\<rparr>) two_products
     = (Inr \<lparr>body = JArr [Product_serialize food_apple], status = 200, resp_headers = []\<rparr>,
        two_products)"
    by (simp add: list_products_def Product_find_by_name_def two_products_def
        tools_hammer_def food_apple_def)
  have by_category: "list_products ascii_upper some_categories (?c\<lparr>args := [''category'' \<mapsto> ''tools'']\<rparr>)
      two_products
     = (Inr \<lparr>body = JArr [Product_serialize tools_hammer], status = 200, resp_headers = []\<rparr>,
        two_products)"
    by (simp add: list_products_def Category_getitem_def ascii_upper_def ascii_upper_char_def
        some_categories_def Product_find_by_category_def two_products_def
        tools_hammer_def food_apple_def)
  have by_available: "list_products ascii_upper some_categories (?a\<lparr>args := [''available'' \<mapsto> ''false'']\<rparr>)
      two_products
     = (Inr \<lparr>body = JArr [Product_serialize food_apple], status = 200, resp_headers = []\<rparr>,
        two_products)"
    by (simp add: list_products_def lower_def lower_char_def
        Product_find_by_availability_def two_products_def tools_hammer_def food_apple_def)
  show ?thesis
    using n c a e by_name by_category by_available
      list_products_precedence [of ?n "''apple''" ascii_upper some_categories two_products]
      list_products_precedence [of ?c _ ascii_upper some_categories two_products "''tools''"]
      list_products_precedence [of ?a _ ascii_upper some_categories two_products _ "''false''"]
      list_products_precedence [of ?e _ ascii_upper some_categories two_products]
    by (simp add: two_products_def)
qed

text \<open>
  C4, as amended: for every non-empty <value>, with no name filter in effect,
  GET /products?category=<value> is answered 400 exactly when <value>.upper(), the value
  upper-cased by Python's \<^verbatim>\<open>str.upper\<close>, is not the name of a member of the category
  enumeration; otherwise it is answered 200 with the serialized stored products of the
  category that <value>.upper() names, and no others. The store is unchanged either way.
  The statement holds whatever function \<open>str_upper\<close> is, so for \<^verbatim>\<open>str.upper\<close> on every string.
\<close>

theorem list_products_by_category:
  assumes "truthy (args req ''name'') = None"
    and "args req ''category'' = Some v" and "v \<noteq> []"
  shows "(str_upper v \<notin> set cats \<longrightarrow>
            status_code (fst (list_products str_upper cats req s)) = 400
            \<and> snd (list_products str_upper cats req s) = s)
       \<and> (str_upper v \<in> set cats \<longrightarrow>
            list_products str_upper cats req s =
              (Inr \<lparr>body = JArr (map Product_serialize
                       (filter (\<lambda>p. category p = str_upper v) (rows s))),
                    status = 200, resp_headers = []\<rparr>, s))"
proof -
  from assms(2,3) have "truthy (args req ''category'') = Some v"
    by (simp add: truthy_Some_iff)
  with assms(1) show ?thesis
    by (simp add: list_products_category Product_find_by_category_def)
qed

theorem list_products_by_category_witness:
  "ascii_upper ''Tools'' \<in> set some_categories
   \<and> list_products ascii_upper some_categories (query [(''category'', ''Tools'')]) two_products =
       (Inr \<lparr>body = JArr [Product_serialize tools_hammer], status = 200, resp_headers = []\<rparr>,
        two_products)
   \<and> ascii_upper ''toys'' \<notin> set some_categories
   \<and> status_code (fst (list_products ascii_upper some_categories (query [(''category'', ''toys'')])
        two_products)) = 400
   \<and> snd (list_products ascii_upper some_categories (query [(''category'', ''toys'')]) two_products)
       = two_products"
proof -
  have n: "truthy (args (query [(''category'', v)]) ''name'') = None"
    and c: "args (query [(''category'', v)]) ''category'' = Some v" for v
    by (simp_all add: query_def)
  have u: "ascii_upper ''Tools'' = ''TOOLS''" "ascii_upper ''toys'' = ''TOYS''"
    by (simp_all add: ascii_upper_def ascii_upper_char_def)
  show ?thesis
    using list_products_by_category [OF n c, of "''Tools''" ascii_upper some_categories two_products]
      list_products_by_category [OF n c, of "''toys''" ascii_upper some_categories two_products]
    by (simp add: u some_categories_def two_products_def tools_hammer_def food_apple_def)
qed

text \<open>
  C4 as stated fails: "tools" and the empty string are not names of members of the
  enumeration, yet GET /products?category=tools and GET /products?category= are
  answered 200, the first with the products of the category TOOLS (\<^verbatim>\<open>"tools".upper()\<close> is
  \<^verbatim>\<open>"TOOLS"\<close>), the second with all products.
\<close>

theorem list_products_category_counterexample:
  "''tools'' \<notin> set some_categories
   \<and> list_products ascii_upper some_categories (query [(''category'', ''tools'')]) two_products =
       (Inr \<lparr>body = JArr [Product_serialize tools_hammer], status = 200, resp_headers = []\<rparr>,
        two_products)
   \<and> status_code (fst (list_products ascii_upper some_categories (query [(''category'', ''tools'')])
        two_products)) \<noteq> 400
   \<and> '''' \<notin> set some_categories
   \<and> list_products ascii_upper some_categories (query [(''category'', '''')]) two_products =
       (Inr \<lparr>body = JArr [Product_serialize tools_hammer, Product_serialize food_apple],
             status = 200, resp_headers = []\<rparr>, two_products)
   \<and> status_code (fst (list_products ascii_upper some_categories (query [(''category'', '''')])
        two_products)) \<noteq> 400"
  by (simp add: list_products_def query_def some_categories_def Category_getitem_def
      ascii_upper_def ascii_upper_char_def Product_find_by_category_def Product_all_def two_products_def
      tools_hammer_def food_apple_def)

subsection \<open>Validation\<close>

lemma Product_deserialize_valid:
  assumes "json_get data ''name'' = Some (JStr n)"
    and "json_get data ''description'' = Some (JStr d)"
    and "json_get data ''price'' = Some (JNum pr)"
    and "json_get data ''available'' = Some (JBool a)"
    and "json_get data ''category'' = Some (JStr c)"
    and "c \<in> set cats"
  shows "Product_deserialize cats p data =
     Inr (p\<lparr>name := n, description := d, price := pr, available := a, category := c\<rparr>)"
  using assms by (simp add: Product_deserialize_def)

lemma Product_deserialize_InrD:
  assumes "Product_deserialize cats p data = Inr p'"
  shows "json_get data ''name'' = Some (JStr (name p'))"
    and "json_get data ''description'' = Some (JStr (description p'))"
    and "json_get data ''price'' = Some (JNum (price p'))"
    and "json_get data ''available'' = Some (JBool (available p'))"
    and "json_get data ''category'' = Some (JStr (category p'))"
    and "category p' \<in> set cats"
    and "id_field p' = id_field p"
  using assms
  by (auto simp: Product_deserialize_def split: option.splits json.splits if_splits)

lemma Product_deserialize_InlD:
  "Product_deserialize cats p data = Inl e \<Longrightarrow> e = DataValidationError"
  by (auto simp: Product_deserialize_def split: option.splits json.splits if_splits)

lemma Product_deserialize_same_fields:
  "Product_deserialize cats p data = Inr p' \<Longrightarrow>
   Product_deserialize cats q data =
     Inr (q\<lparr>name := name p', description := description p', price := price p',
           available := available p', category := category p'\<rparr>)"
  by (auto simp: Product_deserialize_def split: option.splits json.splits if_splits)

lemma json_get_serialize:
  "json_get (Product_serialize p) ''name'' = Some (JStr (name p))"
  "json_get (Product_serialize p) ''description'' = Some (JStr (description p))"
  "json_get (Product_serialize p) ''price'' = Some (JNum (price p))"
  "json_get (Product_serialize p) ''available'' = Some (JBool (available p))"
  "json_get (Product_serialize p) ''category'' = Some (JStr (category p))"
  "json_get (Product_serialize p) ''id'' =
     Some (case id_field p of None \<Rightarrow> JNull | Some i \<Rightarrow> JNum (of_int i))"
  by (simp_all add: Product_serialize_def)

subsection \<open>The storage invariant\<close>

lemma store_ok_iff:
  "store_ok s \<longleftrightarrow>
     (\<forall>p\<in>set (rows s). \<exists>i. id_field p = Some i \<and> i < next_id s)
     \<and> distinct (map id_field (rows s))"
  by (auto simp: store_ok_def list_all_iff split: option.splits)

lemma store_ok_empty: "store_ok empty_store"
  by (simp add: store_ok_iff empty_store_def)

lemma store_ok_fresh: "store_ok s \<Longrightarrow> \<not> product_exists (next_id s) s"
  by (auto simp: store_ok_iff product_exists_def list_ex_iff)

lemma store_ok_create: "store_ok s \<Longrightarrow> store_ok (snd (Product_create p s))"
  by (fastforce simp: store_ok_iff Product_create_def Let_def)

lemma map_id_field_replace:
  "id_field p = Some i \<Longrightarrow>
   map id_field (map (\<lambda>q. if id_field q = Some i then p else q) xs) = map id_field xs"
  by (induction xs) auto

lemma store_ok_update:
  assumes ok: "store_ok s" and ex: "product_exists i s" and p: "id_field p = Some i"
  shows "store_ok (Product_update p s)"
proof -
  from ex obtain q where "q \<in> set (rows s)" "id_field q = Some i"
    by (auto simp: product_exists_def list_ex_iff)
  with ok have lt: "i < next_id s"
    by (auto simp: store_ok_iff)
  have ids: "map id_field (rows (Product_update p s)) = map id_field (rows s)"
    using map_id_field_replace [OF p, of "rows s"] by (simp add: Product_update_def p)
  have nid: "next_id (Product_update p s) = next_id s"
    by (simp add: Product_update_def)
  have "\<forall>q\<in>set (rows (Product_update p s)). \<exists>j. id_field q = Some j \<and> j < next_id s"
    using ok p lt by (auto simp: store_ok_iff Product_update_def)
  moreover have "distinct (map id_field (rows (Product_update p s)))"
    using ok by (simp only: ids store_ok_iff)
  ultimately show ?thesis
    by (simp only: store_ok_iff nid simp_thms)
qed

lemma store_ok_delete: "store_ok s \<Longrightarrow> store_ok (Product_delete p s)"
  by (auto simp: store_ok_iff Product_delete_def distinct_map_filter)

lemma find_append_fresh:
  "List.find P xs = None \<Longrightarrow> List.find P (xs @ ys) = List.find P ys"
  by (induction xs) (auto split: if_splits)

lemma Product_find_create:
  assumes "store_ok s"
  shows "Product_find (next_id s) (snd (Product_create p s)) = Some (fst (Product_create p s))"
proof -
  have "\<not> product_exists (next_id s) s"
    using assms by (rule store_ok_fresh)
  then have "List.find (\<lambda>q. id_field q = Some (next_id s)) (rows s) = None"
    using Product_find_None_iff [of "next_id s" s] by (simp add: Product_find_def)
  then show ?thesis
    by (simp add: Product_find_def Product_create_def Let_def find_append_fresh)
qed

lemma find_replace:
  "id_field p = Some i \<Longrightarrow> \<exists>q\<in>set xs. id_field q = Some i \<Longrightarrow>
   List.find (\<lambda>q. id_field q = Some i) (map (\<lambda>q. if id_field q = Some i then p else q) xs)
     = Some p"
  by (induction xs) auto

lemma Product_find_update:
  assumes "product_exists i s" and "id_field p = Some i"
  shows "Product_find i (Product_update p s) = Some p"
  using assms find_replace [of p i "rows s"]
  by (simp add: Product_find_def Product_update_def product_exists_def list_ex_iff)

subsection \<open>Creating\<close>

lemma create_products_valid:
  assumes "headers req ''Content-Type'' = Some ''application/json''"
    and "get_json req = Inr data"
    and "Product_deserialize cats Product_new data = Inr p"
  shows "create_products cats req s =
     (Inr \<lparr>body = Product_serialize (p\<lparr>id_field := Some (next_id s)\<rparr>), status = 201,
           resp_headers = [(''Location'', url_for ''get_products'' (Some (next_id s)))]\<rparr>,
      snd (Product_create p s))"
  using assms
  by (simp add: create_products_def check_content_type_ok Product_create_def Let_def)

lemma create_products_invalid:
  assumes "headers req ''Content-Type'' = Some ''application/json''"
    and "get_json req = Inr data"
    and "\<forall>p. Product_deserialize cats Product_new data \<noteq> Inr p"
  shows "create_products cats req s = (Inl (HTTPException 400), s)"
proof (cases "Product_deserialize cats Product_new data")
  case (Inl e)
  then have "e = DataValidationError" by (rule Product_deserialize_InlD)
  with Inl assms(1,2) show ?thesis
    by (simp add: create_products_def check_content_type_ok abort_def)
next
  case (Inr p)
  with assms(3) show ?thesis by simp
qed

text \<open>
  C6, as amended: for every POST /products request with Content-Type application/json whose
  body \<^verbatim>\<open>request.get_json()\<close> parses: if the parsed body passes the validation of the fields,
  the answer is 201 with a Location header that refers to the new product's id, and that id
  is the one the storage hands out, whatever the body says; the product is stored under it.
  If the parsed body fails the validation of the fields, the answer is 400 and nothing is
  stored.
\<close>

theorem create_products_created:
  assumes "headers req ''Content-Type'' = Some ''application/json''"
    and "get_json req = Inr data"
  shows "(Product_deserialize cats Product_new data = Inr p \<longrightarrow>
            create_products cats req s =
              (Inr \<lparr>body = Product_serialize (p\<lparr>id_field := Some (next_id s)\<rparr>),
                    status = 201,
                    resp_headers =
                      [(''Location'', url_for ''get_products'' (Some (next_id s)))]\<rparr>,
               s\<lparr>rows := rows s @ [p\<lparr>id_field := Some (next_id s)\<rparr>],
                 next_id := next_id s + 1\<rparr>))
       \<and> ((\<forall>p. Product_deserialize cats Product_new data \<noteq> Inr p) \<longrightarrow>
            status_code (fst (create_products cats req s)) = 400
            \<and> snd (create_products cats req s) = s)"
proof (intro conjI impI)
  assume "Product_deserialize cats Product_new data = Inr p"
  with assms show "create_products cats req s =
      (Inr \<lparr>body = Product_serialize (p\<lparr>id_field := Some (next_id s)\<rparr>), status = 201,
            resp_headers = [(''Location'', url_for ''get_products'' (Some (next_id s)))]\<rparr>,
       s\<lparr>rows := rows s @ [p\<lparr>id_field := Some (next_id s)\<rparr>], next_id := next_id s + 1\<rparr>)"
    by (simp add: create_products_valid Product_create_def Let_def)
next
  assume bad: "\<forall>p. Product_deserialize cats Product_new data \<noteq> Inr p"
  show "status_code (fst (create_products cats req s)) = 400"
    by (simp add: create_products_invalid [OF assms bad])
  show "snd (create_products cats req s) = s"
    by (simp add: create_products_invalid [OF assms bad])
qed

theorem create_products_created_witness:
  "json_get mallet_body ''id'' = Some (JNum 99)
   \<and> create_products some_categories (json_request mallet_body) two_products =
       (Inr \<lparr>body = JObj [(''id'', JNum 3), (''name'', JStr ''mallet''),
                          (''description'', JStr ''rubber mallet''), (''price'', JNum (15 / 2)),
                          (''available'', JBool True), (''category'', JStr ''TOOLS'')],
             status = 201,
             resp_headers = [(''Location'', url_for ''get_products'' (Some 3))]\<rparr>,
        \<lparr>rows = [tools_hammer, food_apple,
                 \<lparr>id_field = Some 3, name = ''mallet'', description = ''rubber mallet'',
                  price = 15 / 2, available = True, category = ''TOOLS''\<rparr>],
         next_id = 4\<rparr>)
   \<and> status_code (fst (create_products some_categories (json_request unpriced_body)
        two_products)) = 400
   \<and> snd (create_products some_categories (json_request unpriced_body) two_products)
       = two_products"
proof -
  have ct: "headers (json_request data) ''Content-Type'' = Some ''application/json''"
    and js: "get_json (json_request data) = Inr data" for data
    by (simp_all add: json_request_def)
  have good: "Product_deserialize some_categories Product_new mallet_body =
      Inr \<lparr>id_field = None, name = ''mallet'', description = ''rubber mallet'',
           price = 15 / 2, available = True, category = ''TOOLS''\<rparr>"
    by (simp add: Product_deserialize_def Product_new_def mallet_body_def some_categories_def)
  have bad: "\<forall>p. Product_deserialize some_categories Product_new unpriced_body \<noteq> Inr p"
    by (simp add: Product_deserialize_def unpriced_body_def)
  have i: "json_get mallet_body ''id'' = Some (JNum 99)"
    by (simp add: mallet_body_def)
  show ?thesis
    using i good bad
      create_products_created [OF ct js, of some_categories mallet_body _ two_products]
      create_products_created [OF ct js, of some_categories unpriced_body _ two_products]
    by (simp add: Product_serialize_def two_products_def)
qed

text \<open>
  C6 as stated fails: a POST /products with Content-Type application/json whose body is not
  JSON does not pass the validation, yet it is answered 500, not 400. The call
  \<^verbatim>\<open>request.get_json()\<close> is inside the \<^verbatim>\<open>try\<close>; what it raises is not a
  \<^verbatim>\<open>DataValidationError\<close> and is caught by \<^verbatim>\<open>except Exception\<close>.
\<close>

theorem create_products_unparsable_counterexample:
  "headers unparsable_request ''Content-Type'' = Some ''application/json''
   \<and> get_json unparsable_request = Inl (HTTPException 400)
   \<and> create_products some_categories unparsable_request two_products =
       (Inl (HTTPException 500), two_products)
   \<and> status_code (fst (create_products some_categories unparsable_request two_products)) = 500
   \<and> status_code (fst (create_products some_categories unparsable_request two_products)) \<noteq> 400"
  by (simp add: create_products_def check_content_type_def unparsable_request_def abort_def)

text \<open>
  C1: when a POST /products with Content-Type application/json and a valid body is made
  on a store that satisfies the storage invariant, it is answered 201 with the new product,
  and a GET /products/{id} that follows, with the id of that answer, is answered 200 with the
  same body; its name, description, price, available and category are those of the posted
  body.
\<close>

theorem create_then_get_roundtrip:
  assumes "store_ok s"
    and "headers req ''Content-Type'' = Some ''application/json''"
    and "get_json req = Inr data"
    and "Product_deserialize cats Product_new data = Inr p"
  shows "fst (create_products cats req s) =
           Inr \<lparr>body = Product_serialize (p\<lparr>id_field := Some (next_id s)\<rparr>), status = 201,
                resp_headers = [(''Location'', url_for ''get_products'' (Some (next_id s)))]\<rparr>
       \<and> json_get (Product_serialize (p\<lparr>id_field := Some (next_id s)\<rparr>)) ''id''
           = Some (JNum (of_int (next_id s)))
       \<and> get_products (next_id s) (snd (create_products cats req s)) =
           (Inr \<lparr>body = Product_serialize (p\<lparr>id_field := Some (next_id s)\<rparr>), status = 200,
                 resp_headers = []\<rparr>,
            snd (create_products cats req s))
       \<and> list_all (\<lambda>k. json_get (Product_serialize (p\<lparr>id_field := Some (next_id s)\<rparr>)) k
                       = json_get data k)
           [''name'', ''description'', ''price'', ''available'', ''category'']"
proof -
  let ?p' = "p\<lparr>id_field := Some (next_id s)\<rparr>"
  let ?s1 = "snd (Product_create p s)"
  have created: "create_products cats req s =
      (Inr \<lparr>body = Product_serialize ?p', status = 201,
            resp_headers = [(''Location'', url_for ''get_products'' (Some (next_id s)))]\<rparr>,
       ?s1)"
    using assms(2-4) by (rule create_products_valid)
  have "Product_find (next_id s) ?s1 = Some (fst (Product_create p s))"
    using assms(1) by (rule Product_find_create)
  then have "Product_find (next_id s) ?s1 = Some ?p'"
    by (simp add: Product_create_def Let_def)
  then have got: "get_products (next_id s) ?s1 =
      (Inr \<lparr>body = Product_serialize ?p', status = 200, resp_headers = []\<rparr>, ?s1)"
    by (rule get_products_found)
  have fields: "list_all (\<lambda>k. json_get (Product_serialize ?p') k = json_get data k)
      [''name'', ''description'', ''price'', ''available'', ''category'']"
    using Product_deserialize_InrD(1-5) [OF assms(4)]
    by (simp add: json_get_serialize)
  have ident: "json_get (Product_serialize ?p') ''id'' = Some (JNum (of_int (next_id s)))"
    by (simp add: json_get_serialize)
  show ?thesis
    using got fields ident by (simp add: created)
qed

theorem create_then_get_roundtrip_witness:
  "store_ok two_products
   \<and> fst (create_products some_categories (json_request mallet_body) two_products) =
       Inr \<lparr>body = JObj [(''id'', JNum 3), (''name'', JStr ''mallet''),
                         (''description'', JStr ''rubber mallet''), (''price'', JNum (15 / 2)),
                         (''available'', JBool True), (''category'', JStr ''TOOLS'')],
            status = 201,
            resp_headers = [(''Location'', url_for ''get_products'' (Some 3))]\<rparr>
   \<and> fst (get_products 3
        (snd (create_products some_categories (json_request mallet_body) two_products))) =
       Inr \<lparr>body = JObj [(''id'', JNum 3), (''name'', JStr ''mallet''),
                         (''description'', JStr ''rubber mallet''), (''price'', JNum (15 / 2)),
                         (''available'', JBool True), (''category'', JStr ''TOOLS'')],
            status = 200, resp_headers = []\<rparr>"
proof -
  have ok: "store_ok two_products"
    by (simp add: store_ok_def two_products_def tools_hammer_def food_apple_def)
  have ct: "headers (json_request mallet_body) ''Content-Type'' = Some ''application/json''"
    and js: "get_json (json_request mallet_body) = Inr mallet_body"
    by (simp_all add: json_request_def)
  have good: "Product_deserialize some_categories Product_new mallet_body =
      Inr \<lparr>id_field = None, name = ''mallet'', description = ''rubber mallet'',
           price = 15 / 2, available = True, category = ''TOOLS''\<rparr>"
    by (simp add: Product_deserialize_def Product_new_def mallet_body_def some_categories_def)
  have n: "next_id two_products = 3"
    by (simp add: two_products_def)
  show ?thesis
    using ok create_then_get_roundtrip [OF ok ct js good]
    by (simp add: n Product_serialize_def)
qed

subsection \<open>Updating\<close>

lemma update_products_valid:
  assumes "headers req ''Content-Type'' = Some ''application/json''"
    and "Product_find i s = Some p0"
    and "get_json req = Inr data"
    and "Product_deserialize cats p0 data = Inr p1"
  shows "update_products cats i req s =
     (Inr \<lparr>body = Product_serialize (p1\<lparr>id_field := Some i\<rparr>), status = 200,
           resp_headers = []\<rparr>,
      Product_update (p1\<lparr>id_field := Some i\<rparr>) s)"
  using assms by (simp add: update_products_def check_content_type_ok Let_def)

lemma filter_replace:
  "id_field p = Some i \<Longrightarrow>
   filter (\<lambda>q. id_field q \<noteq> Some i) (map (\<lambda>q. if id_field q = Some i then p else q) xs)
     = filter (\<lambda>q. id_field q \<noteq> Some i) xs"
  by (induction xs) auto

text \<open>
  C2: for every id, a PUT /products/{id} with Content-Type application/json and a valid
  body, on a store that has a product of that id, is answered 200; afterwards the product
  stored under that id has the id of the URL path, whatever id the body carries, and its
  name, description, price, available and category are those of the body. The products of
  other ids and the next id of the storage are as before.
\<close>

theorem update_products_keeps_id:
  assumes "headers req ''Content-Type'' = Some ''application/json''"
    and "product_exists product_id s"
    and "get_json req = Inr data"
    and "json_get data ''name'' = Some (JStr n)"
    and "json_get data ''description'' = Some (JStr d)"
    and "json_get data ''price'' = Some (JNum pr)"
    and "json_get data ''available'' = Some (JBool a)"
    and "json_get data ''category'' = Some (JStr c)"
    and "c \<in> set cats"
  shows "fst (update_products cats product_id req s) =
           Inr \<lparr>body = Product_serialize
                  \<lparr>id_field = Some product_id, name = n, description = d, price = pr,
                   available = a, category = c\<rparr>,
                status = 200, resp_headers = []\<rparr>
       \<and> Product_find product_id (snd (update_products cats product_id req s)) =
           Some \<lparr>id_field = Some product_id, name = n, description = d, price = pr,
                 available = a, category = c\<rparr>
       \<and> filter (\<lambda>q. id_field q \<noteq> Some product_id)
             (rows (snd (update_products cats product_id req s)))
           = filter (\<lambda>q. id_field q \<noteq> Some product_id) (rows s)
       \<and> next_id (snd (update_products cats product_id req s)) = next_id s"
proof -
  let ?new = "\<lparr>id_field = Some product_id, name = n, description = d, price = pr,
               available = a, category = c\<rparr>"
  from assms(2) obtain p0 where found: "Product_find product_id s = Some p0"
    using Product_find_None_iff [of product_id s] by (cases "Product_find product_id s") auto
  have des: "Product_deserialize cats p0 data =
      Inr (p0\<lparr>name := n, description := d, price := pr, available := a, category := c\<rparr>)"
    using assms(4-9) by (rule Product_deserialize_valid)
  have eq: "p0\<lparr>name := n, description := d, price := pr, available := a, category := c,
      id_field := Some product_id\<rparr> = ?new"
    by (cases p0) simp
  have upd: "update_products cats product_id req s =
      (Inr \<lparr>body = Product_serialize ?new, status = 200, resp_headers = []\<rparr>,
       Product_update ?new s)"
    using update_products_valid [OF assms(1) found assms(3) des] unfolding eq .
  have new_id: "id_field ?new = Some product_id" by simp
  have "Product_find product_id (Product_update ?new s) = Some ?new"
    using assms(2) new_id by (rule Product_find_update)
  moreover have "filter (\<lambda>q. id_field q \<noteq> Some product_id) (rows (Product_update ?new s))
      = filter (\<lambda>q. id_field q \<noteq> Some product_id) (rows s)"
    using filter_replace [OF new_id, of "rows s"] by (simp add: Product_update_def)
  moreover have "next_id (Product_update ?new s) = next_id s"
    by (simp add: Product_update_def)
  ultimately show ?thesis
    by (simp add: upd)
qed

theorem update_products_keeps_id_witness:
  "product_exists 1 two_products
   \<and> json_get mallet_body ''id'' = Some (JNum 99)
   \<and> fst (update_products some_categories 1 (json_request mallet_body) two_products) =
       Inr \<lparr>body = JObj [(''id'', JNum 1), (''name'', JStr ''mallet''),
                         (''description'', JStr ''rubber mallet''), (''price'', JNum (15 / 2)),
                         (''available'', JBool True), (''category'', JStr ''TOOLS'')],
            status = 200, resp_headers = []\<rparr>
   \<and> Product_find 1
        (snd (update_products some_categories 1 (json_request mallet_body) two_products)) =
       Some \<lparr>id_field = Some 1, name = ''mallet'', description = ''rubber mallet'',
             price = 15 / 2, available = True, category = ''TOOLS''\<rparr>
   \<and> filter (\<lambda>q. id_field q \<noteq> Some 1)
        (rows (snd (update_products some_categories 1 (json_request mallet_body) two_products)))
       = [food_apple]"
proof -
  have ct: "headers (json_request mallet_body) ''Content-Type'' = Some ''application/json''"
    and js: "get_json (json_request mallet_body) = Inr mallet_body"
    by (simp_all add: json_request_def)
  have ex: "product_exists 1 two_products"
    by (simp add: product_exists_def two_products_def tools_hammer_def food_apple_def)
  have f: "json_get mallet_body ''name'' = Some (JStr ''mallet'')"
    "json_get mallet_body ''description'' = Some (JStr ''rubber mallet'')"
    "json_get mallet_body ''price'' = Some (JNum (15 / 2))"
    "json_get mallet_body ''available'' = Some (JBool True)"
    "json_get mallet_body ''category'' = Some (JStr ''TOOLS'')"
    "json_get mallet_body ''id'' = Some (JNum 99)"
    by (simp_all add: mallet_body_def)
  have c: "''TOOLS'' \<in> set some_categories"
    by (simp add: some_categories_def)
  have rest: "filter (\<lambda>q. id_field q \<noteq> Some 1) (rows two_products) = [food_apple]"
    by (simp add: two_products_def tools_hammer_def food_apple_def)
  show ?thesis
    using ex f(6) update_products_keeps_id [OF ct ex js f(1-5) c]
    by (simp add: rest Product_serialize_def)
qed

subsection \<open>Every handler keeps the storage invariant\<close>

lemma list_products_store: "snd (list_products str_upper cats req s) = s"
  by (simp add: list_products_def Category_getitem_def Let_def
      split: option.splits sum.splits error.splits)

lemma create_products_store_ok:
  assumes "store_ok s"
  shows "store_ok (snd (create_products cats req s))"
proof -
  have "store_ok (s\<lparr>rows := rows s @ [p\<lparr>id_field := Some (next_id s)\<rparr>],
      next_id := next_id s + 1\<rparr>)" for p
    using store_ok_create [OF assms, of p] by (simp add: Product_create_def Let_def)
  with assms show ?thesis
    by (auto simp: create_products_def Product_create_def Let_def split: sum.splits)
qed

lemma update_products_store_ok:
  assumes "store_ok s"
  shows "store_ok (snd (update_products cats i req s))"
proof (cases "Product_find i s")
  case None
  with assms show ?thesis
    by (auto simp: update_products_def split: sum.splits)
next
  case (Some p0)
  then have "product_exists i s"
    using Product_find_None_iff [of i s] by simp
  then have "store_ok (Product_update (p1\<lparr>id_field := Some i\<rparr>) s)" for p1
    using assms by (simp add: store_ok_update)
  with assms Some show ?thesis
    by (auto simp: update_products_def Let_def split: sum.splits)
qed

lemma delete_products_store_ok:
  "store_ok s \<Longrightarrow> store_ok (snd (delete_products i s))"
  by (auto simp: delete_products_def store_ok_delete split: option.splits)

end
